theory Spec2Isabelle
  imports Complex_Main
begin

section \<open>Echo State Network orchestrator (echotorch/nn/reservoir/ESN.py)\<close>

text \<open>
  The module \<^verbatim>\<open>ESN\<close> composes two collaborators, the reservoir engine
  (\<^verbatim>\<open>ESNCell\<close>) and the readout trainer (\<^verbatim>\<open>RRCell\<close>). Their code is
  not part of \<^verbatim>\<open>ESN.py\<close>; the orchestrator is modelled over an arbitrary
  implementation of each, given as a record of operations on the collaborator's own
  state. Every operation that can raise returns the error as a value together with
  the state it leaves behind.
\<close>

subsection \<open>Errors\<close>

text \<open>
  The three error kinds the specification names, and Python's own \<^verbatim>\<open>TypeError\<close>
  (raised by subscripting \<^verbatim>\<open>None\<close>).
\<close>

datatype error = ConfigurationError | ModeError | NumericalError | TypeError

subsection \<open>Tensors and the slice \<^verbatim>\<open>t[:, k:]\<close>\<close>

text \<open>
  A tensor of shape batch x time x features is a list (batch axis) of lists (time axis)
  of feature vectors. \<^verbatim>\<open>xs[k:]\<close> follows Python: a negative start counts from the
  end, and a start outside the sequence is clipped.
\<close>

definition py_slice_from :: "int \<Rightarrow> 'a list \<Rightarrow> 'a list" where
  "py_slice_from k xs =
     (let n = int (length xs);
          start = (if k < 0 then max 0 (n + k) else min k n)
      in drop (nat start) xs)"

definition slice_time_from :: "int \<Rightarrow> 'a list list \<Rightarrow> 'a list list" where
  "slice_time_from k t = map (py_slice_from k) t"

subsection \<open>Modules and their training flag\<close>

text \<open>
  Every collaborator is a \<^verbatim>\<open>torch.nn.Module\<close>: its own state together with the
  module's \<^verbatim>\<open>training\<close> flag, which a parent's \<^verbatim>\<open>train(mode)\<close> sets.
\<close>

record 'a module =
  mod_training :: bool
  mod_state :: 'a

datatype dtype = Float32 | Float64

datatype shape = Size1 int | Size2 int int

subsection \<open>Generator values\<close>

text \<open>
  A value supplied for a weight slot, as \<^verbatim>\<open>_generate_matrices\<close> inspects it:
  \<open>mg_generate\<close> is \<open>Some g\<close> exactly when the value is an instance of
  \<^verbatim>\<open>mg.MatrixGenerator\<close>, \<open>g\<close> being its \<^verbatim>\<open>generate\<close> method;
  \<open>py_call\<close> is \<open>Some f\<close> exactly when the value is callable; \<open>py_obj\<close> is the
  value itself. A generator runs in a world \<open>'s\<close> (seeds, random streams, its own
  counters) that it may change, and may raise.
\<close>

type_synonym ('s, 'm) matrix_fn = "shape \<Rightarrow> 's \<Rightarrow> (error + 'm) \<times> 's"

record ('s, 'm) generator_value =
  mg_generate :: "('s, 'm) matrix_fn option"
  py_call :: "('s, 'm) matrix_fn option"
  py_obj :: 'm

subsection \<open>The collaborators' interfaces\<close>

text \<open>
  The scaling scalars and the ridge parameter are handed to the collaborators as they
  come; no arithmetic is done on them here. A constructor, the reservoir's call, the
  readout's call and the readout's \<^verbatim>\<open>finalize\<close> may raise; \<^verbatim>\<open>reset\<close>,
  \<^verbatim>\<open>reset_hidden\<close> and the assignment to \<^verbatim>\<open>spectral_radius\<close>, to which the
  specification gives no failure, do not.
\<close>

record ('m, 'f) esncell_args =
  ca_input_dim :: int
  ca_output_dim :: int
  ca_w :: 'm
  ca_w_in :: 'm
  ca_w_bias :: 'm
  ca_spectral_radius :: real
  ca_bias_scaling :: real
  ca_input_scaling :: real
  ca_nonlin_func :: 'f
  ca_dtype :: dtype

record rrcell_args =
  ra_input_dim :: int
  ra_output_dim :: int
  ra_ridge_param :: real
  ra_with_bias :: bool
  ra_learning_algo :: string
  ra_softmax_output :: bool
  ra_dtype :: dtype

text \<open>
  The reservoir engine: its constructor, its call \<^verbatim>\<open>cell(u, reset_state=...)\<close>
  returning the hidden-state trajectory, \<^verbatim>\<open>reset_hidden()\<close>, the matrices it
  holds (the properties \<^verbatim>\<open>w\<close> and \<^verbatim>\<open>w_in\<close> of the model read them from
  it), and its attribute \<^verbatim>\<open>spectral_radius\<close>, read and assigned.
\<close>

record ('u, 'h, 'm, 'f, 'c) reservoir_engine =
  cell_new :: "('m, 'f) esncell_args \<Rightarrow> error + 'c"
  cell_call :: "'u \<Rightarrow> bool \<Rightarrow> 'c module \<Rightarrow> (error + 'h list list) \<times> 'c module"
  cell_reset_hidden :: "'c module \<Rightarrow> 'c module"
  cell_w :: "'c \<Rightarrow> 'm"
  cell_w_in :: "'c \<Rightarrow> 'm"
  cell_w_bias :: "'c \<Rightarrow> 'm"
  cell_spectral_radius :: "'c \<Rightarrow> real"
  cell_set_spectral_radius :: "real \<Rightarrow> 'c module \<Rightarrow> 'c module"

text \<open>
  The readout trainer: its constructor, its call \<^verbatim>\<open>output(states, targets)\<close>
  (targets are \<open>None\<close> when the orchestrator passes \<^verbatim>\<open>None\<close>),
  \<^verbatim>\<open>reset()\<close> and \<^verbatim>\<open>finalize()\<close>.
\<close>

record ('h, 'y, 'o, 'r) readout_trainer =
  rr_new :: "rrcell_args \<Rightarrow> error + 'r"
  rr_call :: "'h list list \<Rightarrow> 'y list list option \<Rightarrow> 'r module \<Rightarrow> (error + 'o) \<times> 'r module"
  rr_reset :: "'r module \<Rightarrow> 'r module"
  rr_finalize :: "'r module \<Rightarrow> (error + unit) \<times> 'r module"

subsection \<open>The model's state\<close>

record ('s, 'm, 'f) esn_args =
  a_input_dim :: int
  a_hidden_dim :: int
  a_output_dim :: int
  a_w_generator :: "('s, 'm) generator_value"
  a_win_generator :: "('s, 'm) generator_value"
  a_wbias_generator :: "('s, 'm) generator_value"
  a_spectral_radius :: real
  a_bias_scaling :: real
  a_input_scaling :: real
  a_nonlin_func :: 'f
  a_learning_algo :: string
  a_ridge_param :: real
  a_with_bias :: bool
  a_softmax_output :: bool
  a_washout :: int
  a_dtype :: dtype

record ('s, 'm, 'c, 'r) esn =
  training :: bool
  input_dim :: int
  output_dim :: int
  hidden_dim :: int
  with_bias :: bool
  washout :: int
  w_generator :: "('s, 'm) generator_value"
  win_generator :: "('s, 'm) generator_value"
  wbias_generator :: "('s, 'm) generator_value"
  esn_dtype :: dtype
  esn_cell :: "'c module"
  esn_output :: "'r module"

text \<open>
  \<^verbatim>\<open>torch.nn.Module.train(mode)\<close>, as \<^verbatim>\<open>self.train(...)\<close> calls it: the flag
  of the module and of each registered child is set to \<open>mode\<close>.
\<close>

definition train :: "bool \<Rightarrow> ('s, 'm, 'c, 'r) esn \<Rightarrow> ('s, 'm, 'c, 'r) esn" where
  "train mode m =
     m\<lparr>training := mode,
       esn_cell := (esn_cell m)\<lparr>mod_training := mode\<rparr>,
       esn_output := (esn_output m)\<lparr>mod_training := mode\<rparr>\<rparr>"

subsection \<open>\<^verbatim>\<open>ESN.forward\<close>\<close>

text \<open>
  The arguments of the readout call, evaluated left to right after the reservoir has
  run: \<^verbatim>\<open>hidden_states[:, washout:]\<close> and, in training mode,
  \<^verbatim>\<open>y[:, washout:]\<close>, which raises \<^verbatim>\<open>TypeError\<close> when \<open>y\<close> is
  \<^verbatim>\<open>None\<close>. In inference mode the second argument is the constant \<^verbatim>\<open>None\<close>.
\<close>

definition readout_args ::
  "('s, 'm, 'c, 'r) esn \<Rightarrow> 'h list list \<Rightarrow> 'y list list option
     \<Rightarrow> error + ('h list list \<times> 'y list list option)" where
  "readout_args m hidden_states y =
     (if \<not> training m then Inr (slice_time_from (washout m) hidden_states, None)
      else (case y of
              None \<Rightarrow> Inl TypeError
            | Some ys \<Rightarrow>
                Inr (slice_time_from (washout m) hidden_states,
                     Some (slice_time_from (washout m) ys))))"

definition forward ::
  "('u, 'h, 'm, 'f, 'c) reservoir_engine \<Rightarrow> ('h, 'y, 'o, 'r) readout_trainer
     \<Rightarrow> ('s, 'm, 'c, 'r) esn \<Rightarrow> 'u \<Rightarrow> 'y list list option \<Rightarrow> bool
     \<Rightarrow> (error + 'o) \<times> ('s, 'm, 'c, 'r) esn" where
  "forward E R m u y reset_state =
     (case cell_call E u reset_state (esn_cell m) of
        (Inl e, c') \<Rightarrow> (Inl e, m\<lparr>esn_cell := c'\<rparr>)
      | (Inr hidden_states, c') \<Rightarrow>
          (case readout_args m hidden_states y of
             Inl e \<Rightarrow> (Inl e, m\<lparr>esn_cell := c'\<rparr>)
           | Inr (xs, tg) \<Rightarrow>
               (case rr_call R xs tg (esn_output m) of
                  (res, r') \<Rightarrow> (res, m\<lparr>esn_cell := c', esn_output := r'\<rparr>))))"

subsection \<open>\<^verbatim>\<open>ESN.reset\<close>, \<^verbatim>\<open>ESN.finalize\<close>, \<^verbatim>\<open>ESN.reset_hidden\<close>\<close>

definition reset ::
  "('h, 'y, 'o, 'r) readout_trainer \<Rightarrow> ('s, 'm, 'c, 'r) esn \<Rightarrow> ('s, 'm, 'c, 'r) esn" where
  "reset R m = train True (m\<lparr>esn_output := rr_reset R (esn_output m)\<rparr>)"

text \<open>
  When the readout's \<^verbatim>\<open>finalize()\<close> raises, the exception leaves
  \<^verbatim>\<open>ESN.finalize\<close> before \<^verbatim>\<open>self.train(False)\<close> runs.
\<close>

definition finalize ::
  "('h, 'y, 'o, 'r) readout_trainer \<Rightarrow> ('s, 'm, 'c, 'r) esn
     \<Rightarrow> (error + unit) \<times> ('s, 'm, 'c, 'r) esn" where
  "finalize R m =
     (case rr_finalize R (esn_output m) of
        (Inl e, r') \<Rightarrow> (Inl e, m\<lparr>esn_output := r'\<rparr>)
      | (Inr u, r') \<Rightarrow> (Inr (), train False (m\<lparr>esn_output := r'\<rparr>)))"

definition reset_hidden ::
  "('u, 'h, 'm, 'f, 'c) reservoir_engine \<Rightarrow> ('s, 'm, 'c, 'r) esn \<Rightarrow> ('s, 'm, 'c, 'r) esn" where
  "reset_hidden E m = m\<lparr>esn_cell := cell_reset_hidden E (esn_cell m)\<rparr>"

subsection \<open>The property \<^verbatim>\<open>ESN.spectral_radius\<close> and its setter\<close>



subsection \<open>\<^verbatim>\<open>ESN._generate_matrices\<close>\<close>

text \<open>
  Three \<^verbatim>\<open>if\<close>/\<^verbatim>\<open>elif\<close>/\<^verbatim>\<open>else\<close> blocks, one per weight slot, run one
  after the other; an exception raised by a generator leaves the method at once. The
  sizes are \<^verbatim>\<open>(hidden_dim, hidden_dim)\<close>, \<^verbatim>\<open>(hidden_dim, input_dim)\<close> and
  \<^verbatim>\<open>hidden_dim\<close>.
\<close>

definition generate_matrices ::
  "int \<Rightarrow> int \<Rightarrow> ('s, 'm) generator_value \<Rightarrow> ('s, 'm) generator_value
     \<Rightarrow> ('s, 'm) generator_value \<Rightarrow> 's \<Rightarrow> (error + 'm \<times> 'm \<times> 'm) \<times> 's" where
  "generate_matrices hdim idim w_gen win_gen wbias_gen s =
     (case (case mg_generate w_gen of
              Some g \<Rightarrow> g (Size2 hdim hdim) s
            | None \<Rightarrow>
                (case py_call w_gen of
                   Some f \<Rightarrow> f (Size2 hdim hdim) s
                 | None \<Rightarrow> (Inr (py_obj w_gen), s))) of
        (Inl e, s1) \<Rightarrow> (Inl e, s1)
      | (Inr w, s1) \<Rightarrow>
          (case (case mg_generate win_gen of
                   Some g \<Rightarrow> g (Size2 hdim idim) s1
                 | None \<Rightarrow>
                     (case py_call win_gen of
                        Some f \<Rightarrow> f (Size2 hdim idim) s1
                      | None \<Rightarrow> (Inr (py_obj win_gen), s1))) of
             (Inl e, s2) \<Rightarrow> (Inl e, s2)
           | (Inr w_in, s2) \<Rightarrow>
               (case (case mg_generate wbias_gen of
                        Some g \<Rightarrow> g (Size1 hdim) s2
                      | None \<Rightarrow>
                          (case py_call wbias_gen of
                             Some f \<Rightarrow> f (Size1 hdim) s2
                           | None \<Rightarrow> (Inr (py_obj wbias_gen), s2))) of
                  (Inl e, s3) \<Rightarrow> (Inl e, s3)
                | (Inr w_bias, s3) \<Rightarrow> (Inr (w, w_in, w_bias), s3))))"

subsection \<open>\<^verbatim>\<open>ESN.__init__\<close>\<close>

text \<open>
  The base class \<^verbatim>\<open>Node\<close> is not part of \<^verbatim>\<open>ESN.py\<close>: its constructor is
  taken to store \<^verbatim>\<open>input_dim\<close> (which \<^verbatim>\<open>_generate_matrices\<close> reads back as
  \<^verbatim>\<open>self._input_dim\<close>), and a new \<^verbatim>\<open>torch.nn.Module\<close> is in training mode.
  The matrices are resolved first, then the reservoir engine is built from them, then
  the readout trainer.
\<close>

definition ESN_init ::
  "('u, 'h, 'm, 'f, 'c) reservoir_engine \<Rightarrow> ('h, 'y, 'o, 'r) readout_trainer
     \<Rightarrow> ('s, 'm, 'f) esn_args \<Rightarrow> 's \<Rightarrow> (error + ('s, 'm, 'c, 'r) esn) \<times> 's" where
  "ESN_init E R a s =
     (case generate_matrices (a_hidden_dim a) (a_input_dim a)
             (a_w_generator a) (a_win_generator a) (a_wbias_generator a) s of
        (Inl e, s') \<Rightarrow> (Inl e, s')
      | (Inr (w, w_in, w_bias), s') \<Rightarrow>
          (case cell_new E
                  \<lparr>ca_input_dim = a_input_dim a, ca_output_dim = a_hidden_dim a,
                   ca_w = w, ca_w_in = w_in, ca_w_bias = w_bias,
                   ca_spectral_radius = a_spectral_radius a,
                   ca_bias_scaling = a_bias_scaling a,
                   ca_input_scaling = a_input_scaling a,
                   ca_nonlin_func = a_nonlin_func a, ca_dtype = a_dtype a\<rparr> of
             Inl e \<Rightarrow> (Inl e, s')
           | Inr c \<Rightarrow>
               (case rr_new R
                       \<lparr>ra_input_dim = a_hidden_dim a, ra_output_dim = a_output_dim a,
                        ra_ridge_param = a_ridge_param a, ra_with_bias = a_with_bias a,
                        ra_learning_algo = a_learning_algo a,
                        ra_softmax_output = a_softmax_output a, ra_dtype = a_dtype a\<rparr> of
                  Inl e \<Rightarrow> (Inl e, s')
                | Inr r \<Rightarrow>
                    (Inr \<lparr>training = True,
                          input_dim = a_input_dim a,
                          output_dim = a_output_dim a,
                          hidden_dim = a_hidden_dim a,
                          with_bias = a_with_bias a,
                          washout = a_washout a,
                          w_generator = a_w_generator a,
                          win_generator = a_win_generator a,
                          wbias_generator = a_wbias_generator a,
                          esn_dtype = a_dtype a,
                          esn_cell = \<lparr>mod_training = True, mod_state = c\<rparr>,
                          esn_output = \<lparr>mod_training = True, mod_state = r\<rparr>\<rparr>,
                     s'))))"

section \<open>The collaborators, from the specification\<close>

subsection \<open>Reservoir engine\<close>

record ('m, 'x) cell_state =
  cs_w :: 'm
  cs_w_in :: 'm
  cs_w_bias :: 'm
  cs_spectral_radius :: real
  cs_hidden :: 'x

fun run_sequence :: "('i \<Rightarrow> 'x \<Rightarrow> 'x) \<Rightarrow> 'x \<Rightarrow> 'i list \<Rightarrow> 'x list \<times> 'x" where
  "run_sequence step x [] = ([], x)"
| "run_sequence step x (u # us) =
     (case run_sequence step (step u x) us of (tr, xf) \<Rightarrow> (step u x # tr, xf))"

fun run_batch :: "('i \<Rightarrow> 'x \<Rightarrow> 'x) \<Rightarrow> 'x \<Rightarrow> 'i list list \<Rightarrow> 'x list list \<times> 'x" where
  "run_batch step x [] = ([], x)"
| "run_batch step x (s # ss) =
     (case run_sequence step x s of
        (tr, x1) \<Rightarrow> (case run_batch step x1 ss of (trs, xf) \<Rightarrow> (tr # trs, xf)))"

text \<open>
  Modelled from the spec: the reservoir engine (\<^verbatim>\<open>ESNCell\<close>, whose code is not
  in \<^verbatim>\<open>ESN.py\<close>), as section 6 of the specification gives its interface. It owns
  the three matrices, the spectral radius and the recurrent state; \<open>compute\<close>
  reinitialises the state to \<open>x0\<close> when \<open>reset_state\<close> is set, then produces one
  hidden state per input timestep; \<open>reset_hidden\<close> reinitialises the recurrent
  state. The matrices are created once at construction and immutable thereafter
  (section 3); the spectral radius is mutable through its setter and takes effect on
  the next call (sections 3 and 4.5): assigning it stores the new value, which the
  state update is given from then on. The state-update equation is outside the
  specification and stays a parameter, \<open>step\<close>.
\<close>

definition spec_engine ::
  "(real \<Rightarrow> 'm \<Rightarrow> 'm \<Rightarrow> 'm \<Rightarrow> 'i \<Rightarrow> 'x \<Rightarrow> 'x) \<Rightarrow> 'x
     \<Rightarrow> ('i list list, 'x, 'm, 'f, ('m, 'x) cell_state) reservoir_engine" where
  "spec_engine step x0 =
     \<lparr>cell_new = (\<lambda>a. Inr \<lparr>cs_w = ca_w a, cs_w_in = ca_w_in a, cs_w_bias = ca_w_bias a,
                            cs_spectral_radius = ca_spectral_radius a,
                            cs_hidden = x0\<rparr>),
      cell_call = (\<lambda>u reset_state c.
        (case run_batch
                (step (cs_spectral_radius (mod_state c)) (cs_w (mod_state c))
                   (cs_w_in (mod_state c)) (cs_w_bias (mod_state c)))
                (if reset_state then x0 else cs_hidden (mod_state c)) u of
           (tr, xf) \<Rightarrow> (Inr tr, c\<lparr>mod_state := (mod_state c)\<lparr>cs_hidden := xf\<rparr>\<rparr>))),
      cell_reset_hidden = (\<lambda>c. c\<lparr>mod_state := (mod_state c)\<lparr>cs_hidden := x0\<rparr>\<rparr>),
      cell_w = cs_w,
      cell_w_in = cs_w_in,
      cell_w_bias = cs_w_bias,
      cell_spectral_radius = cs_spectral_radius,
      cell_set_spectral_radius =
        (\<lambda>sp c. c\<lparr>mod_state := (mod_state c)\<lparr>cs_spectral_radius := sp\<rparr>\<rparr>)\<rparr>"

subsection \<open>Readout trainer\<close>

record ('h, 'y, 'k) rr_state =
  rr_stats :: "('h list list \<times> 'y list list) list"
  rr_w_out :: "'k option"

text \<open>
  Modelled from the spec: the readout trainer (\<^verbatim>\<open>RRCell\<close>, whose code is not in
  \<^verbatim>\<open>ESN.py\<close>), as sections 2, 6 and 7 of the specification describe it. In
  training mode a call accumulates the (states, targets) pair and returns nothing; in
  inference mode it applies the fitted map. \<open>finalize\<close> solves and stores the map and
  fails with \<open>ModeError\<close> when nothing was accumulated; \<open>reset\<close> discards the
  fitted map and the accumulated statistics. \<open>ModeError\<close> is also raised for
  targets supplied in inference mode or omitted in training mode, and for a
  prediction before any \<open>finalize\<close>. The solver and the application of the fitted
  map are outside the specification and stay parameters, \<open>solve\<close> and \<open>predict\<close>.
\<close>

definition spec_readout ::
  "(('h list list \<times> 'y list list) list \<Rightarrow> error + 'k) \<Rightarrow> ('k \<Rightarrow> 'h \<Rightarrow> 'p)
     \<Rightarrow> ('h, 'y, 'p list list option, ('h, 'y, 'k) rr_state) readout_trainer" where
  "spec_readout solve predict =
     \<lparr>rr_new = (\<lambda>a. Inr \<lparr>rr_stats = [], rr_w_out = None\<rparr>),
      rr_call = (\<lambda>xs tg r.
        if mod_training r then
          (case tg of
             None \<Rightarrow> (Inl ModeError, r)
           | Some ys \<Rightarrow>
               (Inr None,
                r\<lparr>mod_state := (mod_state r)\<lparr>rr_stats := rr_stats (mod_state r) @ [(xs, ys)]\<rparr>\<rparr>))
        else
          (case tg of
             Some ys \<Rightarrow> (Inl ModeError, r)
           | None \<Rightarrow>
               (case rr_w_out (mod_state r) of
                  None \<Rightarrow> (Inl ModeError, r)
                | Some k \<Rightarrow> (Inr (Some (map (map (predict k)) xs)), r)))),
      rr_reset = (\<lambda>r. r\<lparr>mod_state := \<lparr>rr_stats = [], rr_w_out = None\<rparr>\<rparr>),
      rr_finalize = (\<lambda>r.
        if rr_stats (mod_state r) = [] then (Inl ModeError, r)
        else
          (case solve (rr_stats (mod_state r)) of
             Inl e \<Rightarrow> (Inl e, r)
           | Inr k \<Rightarrow> (Inr (), r\<lparr>mod_state := (mod_state r)\<lparr>rr_w_out := Some k\<rparr>\<rparr>)))\<rparr>"

section \<open>A small concrete model\<close>

text \<open>
  One hidden unit over the integers: the matrices are single numbers, the state update
  is \<open>x' = w * x + w_in * u + w_bias\<close> from \<open>x0 = 0\<close> (the spectral radius is
  kept and this update does not read it); the fitted map is a single factor (the
  number of accumulated batches) applied to each hidden state.
\<close>

definition demo_engine ::
  "(int list list, int, int, unit, (int, int) cell_state) reservoir_engine" where
  "demo_engine = spec_engine (\<lambda>sr w w_in w_bias u x. w * x + w_in * u + w_bias) 0"

definition demo_readout ::
  "(int, int, int list list option, (int, int, int) rr_state) readout_trainer" where
  "demo_readout = spec_readout (\<lambda>stats. Inr (int (length stats))) (\<lambda>k h. k * h)"

text \<open>A pre-built matrix: neither a \<^verbatim>\<open>MatrixGenerator\<close> nor callable.\<close>

definition literal :: "'m \<Rightarrow> ('s, 'm) generator_value" where
  "literal M = \<lparr>mg_generate = None, py_call = None, py_obj = M\<rparr>"

definition demo_args :: "int \<Rightarrow> (nat, int, unit) esn_args" where
  "demo_args wo =
     \<lparr>a_input_dim = 1, a_hidden_dim = 1, a_output_dim = 1,
      a_w_generator = literal 1, a_win_generator = literal 1, a_wbias_generator = literal 0,
      a_spectral_radius = 9 / 10, a_bias_scaling = 1, a_input_scaling = 1,
      a_nonlin_func = (), a_learning_algo = ''inv'', a_ridge_param = 0,
      a_with_bias = True, a_softmax_output = False, a_washout = wo, a_dtype = Float32\<rparr>"

text \<open>
  The model \<^verbatim>\<open>ESN(1, 1, 1, 1, 1, 0, washout=wo)\<close> in mode \<open>tr\<close>, its reservoir
  at hidden state \<open>x\<close>, its readout holding the statistics \<open>st\<close> and the map \<open>k\<close>.
\<close>

definition demo_esn ::
  "int \<Rightarrow> bool \<Rightarrow> int \<Rightarrow> (int list list \<times> int list list) list \<Rightarrow> int option
     \<Rightarrow> (nat, int, (int, int) cell_state, (int, int, int) rr_state) esn" where
  "demo_esn wo tr x st k =
     \<lparr>training = tr, input_dim = 1, output_dim = 1, hidden_dim = 1, with_bias = True,
      washout = wo,
      w_generator = literal 1, win_generator = literal 1, wbias_generator = literal 0,
      esn_dtype = Float32,
      esn_cell = \<lparr>mod_training = tr,
                  mod_state = \<lparr>cs_w = 1, cs_w_in = 1, cs_w_bias = 0,
                               cs_spectral_radius = 9 / 10, cs_hidden = x\<rparr>\<rparr>,
      esn_output = \<lparr>mod_training = tr, mod_state = \<lparr>rr_stats = st, rr_w_out = k\<rparr>\<rparr>\<rparr>"

section \<open>Specification devices\<close>

text \<open>
  The MatrixSpec resolver in the words of section 4.1 of the specification: a value
  with a \<^verbatim>\<open>generate\<close> capability is asked to generate; else an invocable value
  is invoked with the shape; else the value itself is the matrix and nothing runs.
\<close>

definition resolve_matrix_spec ::
  "('s, 'm) generator_value \<Rightarrow> shape \<Rightarrow> 's \<Rightarrow> (error + 'm) \<times> 's" where
  "resolve_matrix_spec v sh s =
     (case mg_generate v of
        Some g \<Rightarrow> g sh s
      | None \<Rightarrow>
          (case py_call v of
             Some f \<Rightarrow> f sh s
           | None \<Rightarrow> (Inr (py_obj v), s)))"





text \<open>The three matrices the reservoir engine holds, as one value.\<close>

definition cell_matrices ::
  "('u, 'h, 'm, 'f, 'c) reservoir_engine \<Rightarrow> 'c module \<Rightarrow> 'm \<times> 'm \<times> 'm" where
  "cell_matrices E c =
     (cell_w E (mod_state c), cell_w_in E (mod_state c), cell_w_bias E (mod_state c))"

definition esn_matrices ::
  "('u, 'h, 'm, 'f, 'c) reservoir_engine \<Rightarrow> ('s, 'm, 'c, 'r) esn \<Rightarrow> 'm \<times> 'm \<times> 'm" where
  "esn_matrices E m = cell_matrices E (esn_cell m)"

subsection \<open>Later operations\<close>




subsection \<open>Generators over a shared stream\<close>

text \<open>
  A seeded stream is a counter: each request returns a number made of the counter and
  of the requested size, and advances the counter. \<open>stream_generator\<close> is a
  \<^verbatim>\<open>MatrixGenerator\<close>, \<open>stream_callable\<close> a plain function, and
  \<open>stream_both\<close> a \<^verbatim>\<open>MatrixGenerator\<close> that is callable as well.
\<close>

fun size_of :: "shape \<Rightarrow> int" where
  "size_of (Size1 n) = n"
| "size_of (Size2 r c) = r * c"

definition stream_fn :: "int \<Rightarrow> (nat, int) matrix_fn" where
  "stream_fn base = (\<lambda>sh s. (Inr (base + 100 * int s + size_of sh), Suc s))"


definition stream_callable :: "(nat, int) generator_value" where
  "stream_callable = \<lparr>mg_generate = None, py_call = Some (stream_fn 0), py_obj = - 1\<rparr>"

definition stream_both :: "(nat, int) generator_value" where
  "stream_both =
     \<lparr>mg_generate = Some (stream_fn 0), py_call = Some (stream_fn 5000), py_obj = - 1\<rparr>"




section \<open>Properties\<close>

subsection \<open>Slicing\<close>

lemma py_slice_from_nonneg: "0 \<le> k \<Longrightarrow> py_slice_from k xs = drop (nat k) xs"
  by (simp add: py_slice_from_def Let_def min_def)

lemma slice_time_from_nonneg: "0 \<le> k \<Longrightarrow> slice_time_from k t = map (drop (nat k)) t"
  by (simp add: slice_time_from_def py_slice_from_nonneg)

lemma py_slice_from_beyond: "int (length xs) \<le> k \<Longrightarrow> py_slice_from k xs = []"
  by (simp add: py_slice_from_def Let_def min_def)

lemma slice_time_from_beyond:
  "\<forall>s \<in> set t. int (length s) \<le> k \<Longrightarrow> slice_time_from k t = map (\<lambda>s. []) t"
  by (simp add: slice_time_from_def py_slice_from_beyond)

subsection \<open>The shape of a forward call\<close>

lemma forward_success:
  assumes "cell_call E u rs (esn_cell m) = (Inr hs, c')"
    and "readout_args m hs y = Inr (xs, tg)"
  shows "forward E R m u y rs =
           (case rr_call R xs tg (esn_output m) of
              (res, r') \<Rightarrow> (res, m\<lparr>esn_cell := c', esn_output := r'\<rparr>))"
  using assms by (simp add: forward_def)

lemma readout_args_inference:
  "\<not> training m \<Longrightarrow> readout_args m hs y = Inr (slice_time_from (washout m) hs, None)"
  by (simp add: readout_args_def)

lemma forward_inference:
  "\<not> training m \<Longrightarrow>
   forward E R m u y rs =
     (case cell_call E u rs (esn_cell m) of
        (Inl e, c') \<Rightarrow> (Inl e, m\<lparr>esn_cell := c'\<rparr>)
      | (Inr hs, c') \<Rightarrow>
          (case rr_call R (slice_time_from (washout m) hs) None (esn_output m) of
             (res, r') \<Rightarrow> (res, m\<lparr>esn_cell := c', esn_output := r'\<rparr>)))"
  by (simp add: forward_def readout_args_inference split: prod.splits sum.splits)

lemma forward_training_no_targets:
  "training m \<Longrightarrow> cell_call E u rs (esn_cell m) = (Inr hs, c') \<Longrightarrow>
   forward E R m u None rs = (Inl TypeError, m\<lparr>esn_cell := c'\<rparr>)"
  by (simp add: forward_def readout_args_def)

lemma training_forward: "training (snd (forward E R m u y rs)) = training m"
  by (simp add: forward_def split: prod.splits sum.splits)


subsection \<open>Mode switching\<close>

lemma training_train [simp]: "training (train b m) = b"
  by (simp add: train_def)

lemma esn_output_train [simp]:
  "esn_output (train b m) = (esn_output m)\<lparr>mod_training := b\<rparr>"
  by (simp add: train_def)

lemma esn_cell_train [simp]:
  "esn_cell (train b m) = (esn_cell m)\<lparr>mod_training := b\<rparr>"
  by (simp add: train_def)

lemma finalize_cases:
  "rr_finalize R (esn_output m) = (res, r') \<Longrightarrow>
   finalize R m =
     (case res of
        Inl e \<Rightarrow> (Inl e, m\<lparr>esn_output := r'\<rparr>)
      | Inr u \<Rightarrow> (Inr (), train False (m\<lparr>esn_output := r'\<rparr>)))"
  by (simp add: finalize_def split: sum.splits)

subsection \<open>The collaborators of the specification and the concrete model\<close>

lemma spec_readout_reset [simp]:
  "rr_reset (spec_readout solve predict) r =
     r\<lparr>mod_state := \<lparr>rr_stats = [], rr_w_out = None\<rparr>\<rparr>"
  by (simp add: spec_readout_def)

lemma spec_readout_finalize_empty:
  "rr_stats (mod_state r) = [] \<Longrightarrow>
   rr_finalize (spec_readout solve predict) r = (Inl ModeError, r)"
  by (simp add: spec_readout_def)

lemma demo_init:
  "ESN_init demo_engine demo_readout (demo_args wo) s = (Inr (demo_esn wo True 0 [] None), s)"
  by (simp add: ESN_init_def generate_matrices_def demo_engine_def demo_readout_def
      demo_args_def demo_esn_def literal_def spec_engine_def spec_readout_def)

lemma demo_cell_call:
  "cell_call demo_engine [[1,2,3,4,5]] True (esn_cell (demo_esn wo tr x st k)) =
     (Inr [[1,3,6,10,15]],
      \<lparr>mod_training = tr,
       mod_state = \<lparr>cs_w = 1, cs_w_in = 1, cs_w_bias = 0,
                               cs_spectral_radius = 9 / 10, cs_hidden = 15\<rparr>\<rparr>)"
  by (simp add: demo_engine_def spec_engine_def demo_esn_def)

lemma demo_forward_inference:
  "forward demo_engine demo_readout (demo_esn wo False x st (Some k)) [[1,2,3,4,5]] y True =
     (Inr (Some (map (map (\<lambda>h. k * h)) (slice_time_from wo [[1,3,6,10,15]]))),
      demo_esn wo False 15 st (Some k))"
proof -
  have inf: "\<not> training (demo_esn wo False x st (Some k))" by (simp add: demo_esn_def)
  show ?thesis
    unfolding forward_inference [OF inf] demo_cell_call
    by (simp add: demo_esn_def demo_readout_def spec_readout_def)
qed


subsection \<open>The washout window\<close>

text \<open>
  Claim C1. When the reservoir returns trajectories of time length \<open>L\<close> and the
  washout \<open>W\<close> satisfies \<open>0 \<le> W < L\<close>, \<^verbatim>\<open>forward\<close> calls the readout on the
  trajectory without its first \<open>W\<close> timesteps: every sequence handed over has
  \<open>L - W\<close> timesteps, and its timestep \<open>t\<close> is timestep \<open>W + t\<close> of the original.
  In training mode the targets are cut by the same \<open>W\<close>; in inference mode the readout
  gets no targets.
\<close>

theorem forward_washout_window:
  assumes run: "cell_call E u rs (esn_cell m) = (Inr hs, c')"
    and len: "\<forall>s \<in> set hs. int (length s) = L"
    and w0: "0 \<le> washout m"
    and wL: "washout m < L"
    and tgt: "training m \<longrightarrow> y = Some ys"
  shows "\<exists>xs tg.
           forward E R m u y rs =
             (case rr_call R xs tg (esn_output m) of
                (res, r') \<Rightarrow> (res, m\<lparr>esn_cell := c', esn_output := r'\<rparr>))
         \<and> xs = map (drop (nat (washout m))) hs
         \<and> (\<forall>b < length hs.
               int (length (xs ! b)) = L - washout m
             \<and> (\<forall>t < nat (L - washout m). xs ! b ! t = hs ! b ! (nat (washout m) + t)))
         \<and> tg = (if training m then Some (map (drop (nat (washout m))) ys) else None)"
proof -
  let ?W = "nat (washout m)"
  let ?xs = "map (drop ?W) hs"
  let ?tg = "if training m then Some (map (drop ?W) ys) else None"
  have args: "readout_args m hs y = Inr (?xs, ?tg)"
    using w0 tgt by (simp add: readout_args_def slice_time_from_nonneg)
  have fw: "forward E R m u y rs =
             (case rr_call R ?xs ?tg (esn_output m) of
                (res, r') \<Rightarrow> (res, m\<lparr>esn_cell := c', esn_output := r'\<rparr>))"
    by (rule forward_success [OF run args])
  have win: "\<forall>b < length hs.
               int (length (?xs ! b)) = L - washout m
             \<and> (\<forall>t < nat (L - washout m). ?xs ! b ! t = hs ! b ! (?W + t))"
  proof (intro allI impI)
    fix b assume b: "b < length hs"
    then have "hs ! b \<in> set hs" by simp
    with len have lb: "int (length (hs ! b)) = L" by blast
    have "int (length (?xs ! b)) = L - washout m"
      using b lb w0 wL by simp
    moreover have "\<forall>t < nat (L - washout m). ?xs ! b ! t = hs ! b ! (?W + t)"
      using b lb w0 wL by simp
    ultimately show "int (length (?xs ! b)) = L - washout m
             \<and> (\<forall>t < nat (L - washout m). ?xs ! b ! t = hs ! b ! (?W + t))" by blast
  qed
  from fw win show ?thesis by blast
qed

theorem forward_washout_window_witness:
  "cell_call demo_engine [[1,2,3,4,5]] True (esn_cell (demo_esn 2 True 0 [] None)) =
     (Inr [[1,3,6,10,15]],
      \<lparr>mod_training = True,
       mod_state = \<lparr>cs_w = 1, cs_w_in = 1, cs_w_bias = 0,
                               cs_spectral_radius = 9 / 10, cs_hidden = 15\<rparr>\<rparr>)
   \<and> washout (demo_esn 2 True 0 [] None) = 2
   \<and> forward demo_engine demo_readout (demo_esn 2 True 0 [] None) [[1,2,3,4,5]]
        (Some [[10,20,30,40,50]]) True =
       (Inr None, demo_esn 2 True 15 [([[6,10,15]], [[30,40,50]])] None)"
proof -
  let ?m = "demo_esn 2 True 0 [] None"
  have run: "cell_call demo_engine [[1,2,3,4,5]] True (esn_cell ?m) =
     (Inr [[1,3,6,10,15]],
      \<lparr>mod_training = True,
       mod_state = \<lparr>cs_w = 1, cs_w_in = 1, cs_w_bias = 0,
                               cs_spectral_radius = 9 / 10, cs_hidden = 15\<rparr>\<rparr>)"
    by (rule demo_cell_call)
  have len: "\<forall>s \<in> set [[1,3,6,10,15::int]]. int (length s) = 5" by simp
  have w0: "0 \<le> washout ?m" and wL: "washout ?m < 5" and wo: "washout ?m = 2"
    by (simp_all add: demo_esn_def)
  have tgt: "training ?m \<longrightarrow> Some [[10,20,30,40,50::int]] = Some [[10,20,30,40,50]]"
    by simp
  from forward_washout_window [OF run len w0 wL tgt, of demo_readout]
  have "forward demo_engine demo_readout ?m [[1,2,3,4,5]] (Some [[10,20,30,40,50]]) True =
       (Inr None, demo_esn 2 True 15 [([[6,10,15]], [[30,40,50]])] None)"
    by (simp add: demo_esn_def demo_readout_def spec_readout_def)
  with run wo show ?thesis by blast
qed

subsection \<open>Mode and targets\<close>

text \<open>
  Claim C2, as amended. \<^verbatim>\<open>forward\<close> raises no \<open>ModeError\<close> of its own. In
  inference mode a supplied \<open>y\<close> is dropped: the readout is called on the cut
  trajectory with no targets, whatever \<open>y\<close> was. In training mode with \<open>y\<close>
  omitted, once the reservoir has run, the call fails with \<^verbatim>\<open>TypeError\<close> before
  the readout is reached, the reservoir keeping its advanced state.
\<close>

theorem forward_mode_mismatch:
  "(\<not> training m \<longrightarrow>
      forward E R m u (Some ys) rs =
        (case cell_call E u rs (esn_cell m) of
           (Inl e, c') \<Rightarrow> (Inl e, m\<lparr>esn_cell := c'\<rparr>)
         | (Inr hs, c') \<Rightarrow>
             (case rr_call R (slice_time_from (washout m) hs) None (esn_output m) of
                (res, r') \<Rightarrow> (res, m\<lparr>esn_cell := c', esn_output := r'\<rparr>))))
   \<and> (training m \<and> cell_call E u rs (esn_cell m) = (Inr hs, c') \<longrightarrow>
        forward E R m u None rs = (Inl TypeError, m\<lparr>esn_cell := c'\<rparr>))"
  by (simp add: forward_inference forward_training_no_targets)

theorem forward_mode_mismatch_witness:
  "forward demo_engine demo_readout (demo_esn 0 False 7 [] (Some 3)) [[1,2,3,4,5]]
      (Some [[10,20,30,40,50]]) True =
     (Inr (Some [[3,9,18,30,45]]), demo_esn 0 False 15 [] (Some 3))
   \<and> forward demo_engine demo_readout (demo_esn 0 True 7 [] None) [[1,2,3,4,5]] None True =
     (Inl TypeError, demo_esn 0 True 15 [] None)"
proof -
  have inf: "\<not> training (demo_esn 0 False 7 [] (Some 3))"
    and tr: "training (demo_esn 0 True 7 [] None)"
    by (simp_all add: demo_esn_def)
  have run: "training (demo_esn 0 True 7 [] None)
      \<and> cell_call demo_engine [[1,2,3,4,5]] True (esn_cell (demo_esn 0 True 7 [] None)) =
      (Inr [[1,3,6,10,15]],
      \<lparr>mod_training = True,
       mod_state = \<lparr>cs_w = 1, cs_w_in = 1, cs_w_bias = 0,
                               cs_spectral_radius = 9 / 10, cs_hidden = 15\<rparr>\<rparr>)"
    using tr demo_cell_call by blast
  have a: "forward demo_engine demo_readout (demo_esn 0 False 7 [] (Some 3)) [[1,2,3,4,5]]
      (Some [[10,20,30,40,50]]) True =
     (Inr (Some [[3,9,18,30,45]]), demo_esn 0 False 15 [] (Some 3))"
    using forward_mode_mismatch [of "demo_esn 0 False 7 [] (Some 3)" demo_engine demo_readout
        "[[1,2,3,4,5]]" "[[10,20,30,40,50]]" True] inf
    by (simp add: demo_cell_call)
       (simp add: demo_esn_def demo_readout_def spec_readout_def slice_time_from_def
         py_slice_from_def)
  have b: "forward demo_engine demo_readout (demo_esn 0 True 7 [] None) [[1,2,3,4,5]] None True =
     (Inl TypeError, demo_esn 0 True 15 [] None)"
    using forward_mode_mismatch [of "demo_esn 0 True 7 [] None" demo_engine demo_readout
        "[[1,2,3,4,5]]" _ True "[[1,3,6,10,15]]"] run
    by (simp add: demo_esn_def)
  from a b show ?thesis by blast
qed

text \<open>
  The claim as stated fails both ways. A fitted model in inference mode, given
  targets, returns its prediction; a model in training mode, given no targets, fails
  with \<^verbatim>\<open>TypeError\<close>, not \<open>ModeError\<close>.
\<close>

theorem forward_mode_mismatch_counterexample:
  "\<not> training (demo_esn 2 False 0 [([[6,10,15]], [[30,40,50]])] (Some 1))
   \<and> forward demo_engine demo_readout
        (demo_esn 2 False 0 [([[6,10,15]], [[30,40,50]])] (Some 1))
        [[1,2,3,4,5]] (Some [[10,20,30,40,50]]) True =
       (Inr (Some [[6,10,15]]), demo_esn 2 False 15 [([[6,10,15]], [[30,40,50]])] (Some 1))
   \<and> training (demo_esn 2 True 0 [] None)
   \<and> forward demo_engine demo_readout (demo_esn 2 True 0 [] None) [[1,2,3,4,5]] None True =
       (Inl TypeError, demo_esn 2 True 15 [] None)"
proof -
  have a: "\<not> training (demo_esn 2 False 0 [([[6,10,15]], [[30,40,50]])] (Some 1))"
    and b: "training (demo_esn 2 True 0 [] None)"
    by (simp_all add: demo_esn_def)
  have c: "forward demo_engine demo_readout
        (demo_esn 2 False 0 [([[6,10,15]], [[30,40,50]])] (Some 1))
        [[1,2,3,4,5]] (Some [[10,20,30,40,50]]) True =
       (Inr (Some [[6,10,15]]), demo_esn 2 False 15 [([[6,10,15]], [[30,40,50]])] (Some 1))"
    by (simp add: demo_forward_inference slice_time_from_def py_slice_from_def)
  have d: "forward demo_engine demo_readout (demo_esn 2 True 0 [] None) [[1,2,3,4,5]] None True =
       (Inl TypeError, demo_esn 2 True 15 [] None)"
    by (simp add: forward_training_no_targets [OF b demo_cell_call]) (simp add: demo_esn_def)
  from a b c d show ?thesis by blast
qed

subsection \<open>Washout at least the sequence length\<close>

text \<open>
  Claim C3, as amended. When the washout is at least the time length \<open>L\<close> of the
  trajectories, \<^verbatim>\<open>forward\<close> raises nothing of its own: it calls the readout on
  sequences with no timestep left (and, in training mode, on the targets cut by the
  same washout) and returns what the readout returns.
\<close>

theorem forward_washout_too_long:
  assumes run: "cell_call E u rs (esn_cell m) = (Inr hs, c')"
    and len: "\<forall>s \<in> set hs. int (length s) = L"
    and wL: "L \<le> washout m"
    and tgt: "training m \<longrightarrow> y = Some ys"
  shows "forward E R m u y rs =
           (case rr_call R (map (\<lambda>s. []) hs)
                   (if training m then Some (slice_time_from (washout m) ys) else None)
                   (esn_output m) of
              (res, r') \<Rightarrow> (res, m\<lparr>esn_cell := c', esn_output := r'\<rparr>))"
proof -
  have "slice_time_from (washout m) hs = map (\<lambda>s. []) hs"
    using len wL by (simp add: slice_time_from_beyond)
  then have "readout_args m hs y =
      Inr (map (\<lambda>s. []) hs, if training m then Some (slice_time_from (washout m) ys) else None)"
    using tgt by (simp add: readout_args_def)
  from forward_success [OF run this] show ?thesis .
qed

theorem forward_washout_too_long_witness:
  "cell_call demo_engine [[1,2,3,4,5]] True (esn_cell (demo_esn 7 True 0 [] None)) =
       (Inr [[1,3,6,10,15]],
        \<lparr>mod_training = True,
         mod_state = \<lparr>cs_w = 1, cs_w_in = 1, cs_w_bias = 0,
                               cs_spectral_radius = 9 / 10, cs_hidden = 15\<rparr>\<rparr>)
   \<and> (5::int) \<le> washout (demo_esn 7 True 0 [] None)
   \<and> forward demo_engine demo_readout (demo_esn 7 True 0 [] None) [[1,2,3,4,5]]
        (Some [[10,20,30,40,50]]) True =
       (Inr None, demo_esn 7 True 15 [([[]], [[]])] None)"
proof -
  let ?m = "demo_esn 7 True 0 [] None"
  have run: "cell_call demo_engine [[1,2,3,4,5]] True (esn_cell ?m) =
       (Inr [[1,3,6,10,15]],
        \<lparr>mod_training = True,
         mod_state = \<lparr>cs_w = 1, cs_w_in = 1, cs_w_bias = 0,
                               cs_spectral_radius = 9 / 10, cs_hidden = 15\<rparr>\<rparr>)"
    by (rule demo_cell_call)
  have len: "\<forall>s \<in> set [[1,3,6,10,15::int]]. int (length s) = 5" by simp
  have wL: "5 \<le> washout ?m" by (simp add: demo_esn_def)
  have tgt: "training ?m \<longrightarrow> Some [[10,20,30,40,50::int]] = Some [[10,20,30,40,50]]"
    by simp
  from forward_washout_too_long [OF run len wL tgt, of demo_readout]
  have "forward demo_engine demo_readout ?m [[1,2,3,4,5]] (Some [[10,20,30,40,50]]) True =
       (Inr None, demo_esn 7 True 15 [([[]], [[]])] None)"
    by (simp add: demo_esn_def demo_readout_def spec_readout_def slice_time_from_def
        py_slice_from_def)
  with run wL show ?thesis by blast
qed

text \<open>
  The claim as stated fails at washout 5 on a sequence of length 5: in training mode
  the call returns normally and an empty pair is accumulated; in inference mode it
  returns an empty prediction.
\<close>

theorem forward_washout_too_long_counterexample:
  "washout (demo_esn 5 True 0 [] None) = 5
   \<and> cell_call demo_engine [[1,2,3,4,5]] True (esn_cell (demo_esn 5 True 0 [] None)) =
       (Inr [[1,3,6,10,15]],
        \<lparr>mod_training = True,
         mod_state = \<lparr>cs_w = 1, cs_w_in = 1, cs_w_bias = 0,
                               cs_spectral_radius = 9 / 10, cs_hidden = 15\<rparr>\<rparr>)
   \<and> forward demo_engine demo_readout (demo_esn 5 True 0 [] None) [[1,2,3,4,5]]
        (Some [[10,20,30,40,50]]) True =
       (Inr None, demo_esn 5 True 15 [([[]], [[]])] None)
   \<and> washout (demo_esn 5 False 0 [] (Some 1)) = 5
   \<and> forward demo_engine demo_readout (demo_esn 5 False 0 [] (Some 1)) [[1,2,3,4,5]]
        None True =
       (Inr (Some [[]]), demo_esn 5 False 15 [] (Some 1))"
proof -
  have a: "forward demo_engine demo_readout (demo_esn 5 False 0 [] (Some 1)) [[1,2,3,4,5]]
        None True = (Inr (Some [[]]), demo_esn 5 False 15 [] (Some 1))"
    by (simp add: demo_forward_inference slice_time_from_def py_slice_from_def)
  have b: "forward demo_engine demo_readout (demo_esn 5 True 0 [] None) [[1,2,3,4,5]]
        (Some [[10,20,30,40,50]]) True =
       (Inr None, demo_esn 5 True 15 [([[]], [[]])] None)"
    unfolding forward_def demo_cell_call
    by (simp add: readout_args_def slice_time_from_def py_slice_from_def demo_esn_def
        demo_readout_def spec_readout_def)
  have c: "washout (demo_esn 5 True 0 [] None) = 5"
    "washout (demo_esn 5 False 0 [] (Some 1)) = 5"
    by (simp_all add: demo_esn_def)
  from a b c demo_cell_call [of 5 True 0 "[]" None] show ?thesis by blast
qed

subsection \<open>Matrix resolution\<close>

lemma generate_matrices_seq:
  "generate_matrices hdim idim gw gwin gb s =
     (case resolve_matrix_spec gw (Size2 hdim hdim) s of
        (Inl e, s1) \<Rightarrow> (Inl e, s1)
      | (Inr w, s1) \<Rightarrow>
          (case resolve_matrix_spec gwin (Size2 hdim idim) s1 of
             (Inl e, s2) \<Rightarrow> (Inl e, s2)
           | (Inr w_in, s2) \<Rightarrow>
               (case resolve_matrix_spec gb (Size1 hdim) s2 of
                  (Inl e, s3) \<Rightarrow> (Inl e, s3)
                | (Inr w_bias, s3) \<Rightarrow> (Inr (w, w_in, w_bias), s3))))"
  unfolding generate_matrices_def resolve_matrix_spec_def by (rule refl)

lemma resolve_literal: "resolve_matrix_spec (literal M) sh s = (Inr M, s)"
  by (simp add: resolve_matrix_spec_def literal_def)




lemma ESN_init_cell:
  assumes "ESN_init E R a s = (Inr m, s')"
  shows "\<exists>w w_in w_bias.
           generate_matrices (a_hidden_dim a) (a_input_dim a) (a_w_generator a)
             (a_win_generator a) (a_wbias_generator a) s = (Inr (w, w_in, w_bias), s')
         \<and> cell_new E
              \<lparr>ca_input_dim = a_input_dim a, ca_output_dim = a_hidden_dim a,
               ca_w = w, ca_w_in = w_in, ca_w_bias = w_bias,
               ca_spectral_radius = a_spectral_radius a,
               ca_bias_scaling = a_bias_scaling a,
               ca_input_scaling = a_input_scaling a,
               ca_nonlin_func = a_nonlin_func a, ca_dtype = a_dtype a\<rparr>
             = Inr (mod_state (esn_cell m))"
  using assms by (auto simp: ESN_init_def split: prod.splits sum.splits)

lemma cell_matrices_flag [simp]:
  "cell_matrices E (c\<lparr>mod_training := b\<rparr>) = cell_matrices E c"
  by (simp add: cell_matrices_def)


text \<open>
  Claim C4. \<^verbatim>\<open>_generate_matrices\<close> resolves each of the three slots as the
  specification's resolver does: \<^verbatim>\<open>generate\<close> of a \<^verbatim>\<open>MatrixGenerator\<close> is
  used first, else the value is called when it is callable, else the value itself is
  the matrix. Pre-built matrices in all three slots come back unchanged, and nothing
  else runs (the world is left as it was). A successful construction builds the
  reservoir engine from the three matrices so resolved.
\<close>

theorem generate_matrices_dispatch:
  "generate_matrices hdim idim gw gwin gb s =
     (case resolve_matrix_spec gw (Size2 hdim hdim) s of
        (Inl e, s1) \<Rightarrow> (Inl e, s1)
      | (Inr w, s1) \<Rightarrow>
          (case resolve_matrix_spec gwin (Size2 hdim idim) s1 of
             (Inl e, s2) \<Rightarrow> (Inl e, s2)
           | (Inr w_in, s2) \<Rightarrow>
               (case resolve_matrix_spec gb (Size1 hdim) s2 of
                  (Inl e, s3) \<Rightarrow> (Inl e, s3)
                | (Inr w_bias, s3) \<Rightarrow> (Inr (w, w_in, w_bias), s3))))
   \<and> generate_matrices hdim idim (literal M1) (literal M2) (literal M3) s =
       (Inr (M1, M2, M3), s)
   \<and> (ESN_init E R a s0 = (Inr m, s0') \<longrightarrow>
        (\<exists>w w_in w_bias.
           generate_matrices (a_hidden_dim a) (a_input_dim a) (a_w_generator a)
             (a_win_generator a) (a_wbias_generator a) s0 = (Inr (w, w_in, w_bias), s0')
         \<and> cell_new E
              \<lparr>ca_input_dim = a_input_dim a, ca_output_dim = a_hidden_dim a,
               ca_w = w, ca_w_in = w_in, ca_w_bias = w_bias,
               ca_spectral_radius = a_spectral_radius a,
               ca_bias_scaling = a_bias_scaling a,
               ca_input_scaling = a_input_scaling a,
               ca_nonlin_func = a_nonlin_func a, ca_dtype = a_dtype a\<rparr>
             = Inr (mod_state (esn_cell m))))"
proof (intro conjI impI)
  show "generate_matrices hdim idim gw gwin gb s =
     (case resolve_matrix_spec gw (Size2 hdim hdim) s of
        (Inl e, s1) \<Rightarrow> (Inl e, s1)
      | (Inr w, s1) \<Rightarrow>
          (case resolve_matrix_spec gwin (Size2 hdim idim) s1 of
             (Inl e, s2) \<Rightarrow> (Inl e, s2)
           | (Inr w_in, s2) \<Rightarrow>
               (case resolve_matrix_spec gb (Size1 hdim) s2 of
                  (Inl e, s3) \<Rightarrow> (Inl e, s3)
                | (Inr w_bias, s3) \<Rightarrow> (Inr (w, w_in, w_bias), s3))))"
    by (rule generate_matrices_seq)
  show "generate_matrices hdim idim (literal M1) (literal M2) (literal M3) s =
       (Inr (M1, M2, M3), s)"
    by (simp add: generate_matrices_seq resolve_literal)
  show "\<exists>w w_in w_bias.
           generate_matrices (a_hidden_dim a) (a_input_dim a) (a_w_generator a)
             (a_win_generator a) (a_wbias_generator a) s0 = (Inr (w, w_in, w_bias), s0')
         \<and> cell_new E
              \<lparr>ca_input_dim = a_input_dim a, ca_output_dim = a_hidden_dim a,
               ca_w = w, ca_w_in = w_in, ca_w_bias = w_bias,
               ca_spectral_radius = a_spectral_radius a,
               ca_bias_scaling = a_bias_scaling a,
               ca_input_scaling = a_input_scaling a,
               ca_nonlin_func = a_nonlin_func a, ca_dtype = a_dtype a\<rparr>
             = Inr (mod_state (esn_cell m))"
    if "ESN_init E R a s0 = (Inr m, s0')"
    using that by (rule ESN_init_cell)
qed

theorem generate_matrices_dispatch_witness:
  "generate_matrices 3 2 stream_both stream_callable (literal 7) 0 = (Inr (9, 106, 7), 2)
   \<and> generate_matrices 3 2 (literal 4) (literal 5) (literal 6) (0::nat)
       = (Inr (4, 5, 6::int), 0)
   \<and> ESN_init demo_engine demo_readout (demo_args 2) 0 = (Inr (demo_esn 2 True 0 [] None), 0)
   \<and> esn_matrices demo_engine (demo_esn 2 True 0 [] None) = (1, 1, 0)"
proof -
  have ms: "esn_matrices demo_engine (demo_esn 2 True 0 [] None) = (1, 1, 0)"
    by (simp add: esn_matrices_def cell_matrices_def demo_esn_def demo_engine_def
        spec_engine_def)
  from generate_matrices_dispatch [of 3 2 stream_both stream_callable "literal 7" 0 "4::int" "5::int" "6::int"
      demo_engine demo_readout "demo_args 2" 0 "demo_esn 2 True 0 [] None" 0]
    demo_init [of 2 0] ms
  show ?thesis
    by (simp add: resolve_matrix_spec_def stream_both_def stream_callable_def stream_fn_def
        literal_def numeral_2_eq_2)
qed












subsection \<open>Lifecycle\<close>

text \<open>
  Claim C5. The mode is a boolean switched by \<^verbatim>\<open>finalize\<close> and \<^verbatim>\<open>reset\<close>
  only. \<^verbatim>\<open>finalize\<close> first runs the readout's solve and raises exactly what that
  raises; when the solve succeeds the mode becomes inference (and the readout holds
  what the solve left, its flag cleared), and when the solve raises the mode is left
  as it was. \<^verbatim>\<open>reset\<close> first resets the readout, then sets the mode to training.
  \<^verbatim>\<open>forward\<close> never changes the mode.
\<close>

theorem training_mode_machine:
  "fst (finalize R m) = fst (rr_finalize R (esn_output m))
   \<and> (fst (finalize R m) = Inr () \<longrightarrow>
        training (snd (finalize R m)) = False
      \<and> esn_output (snd (finalize R m)) =
          (snd (rr_finalize R (esn_output m)))\<lparr>mod_training := False\<rparr>)
   \<and> (fst (finalize R m) \<noteq> Inr () \<longrightarrow>
        training (snd (finalize R m)) = training m
      \<and> esn_output (snd (finalize R m)) = snd (rr_finalize R (esn_output m)))
   \<and> training (reset R m) = True
   \<and> esn_output (reset R m) = (rr_reset R (esn_output m))\<lparr>mod_training := True\<rparr>
   \<and> training (snd (forward E R m u y rs)) = training m"
proof -
  obtain res r' where f: "rr_finalize R (esn_output m) = (res, r')"
    by (cases "rr_finalize R (esn_output m)")
  have fin: "fst (finalize R m) = fst (rr_finalize R (esn_output m))
   \<and> (fst (finalize R m) = Inr () \<longrightarrow>
        training (snd (finalize R m)) = False
      \<and> esn_output (snd (finalize R m)) =
          (snd (rr_finalize R (esn_output m)))\<lparr>mod_training := False\<rparr>)
   \<and> (fst (finalize R m) \<noteq> Inr () \<longrightarrow>
        training (snd (finalize R m)) = training m
      \<and> esn_output (snd (finalize R m)) = snd (rr_finalize R (esn_output m)))"
    by (cases res) (simp_all add: finalize_cases [OF f] f)
  have res: "training (reset R m) = True
   \<and> esn_output (reset R m) = (rr_reset R (esn_output m))\<lparr>mod_training := True\<rparr>"
    by (simp add: reset_def)
  from fin res training_forward [of E R m u y rs] show ?thesis by blast
qed

theorem training_mode_machine_witness:
  "finalize demo_readout (demo_esn 2 True 15 [([[6,10,15]], [[30,40,50]])] None) =
     (Inr (), demo_esn 2 False 15 [([[6,10,15]], [[30,40,50]])] (Some 1))
   \<and> reset demo_readout (demo_esn 2 True 15 [([[6,10,15]], [[30,40,50]])] None) =
       demo_esn 2 True 15 [] None
   \<and> training (snd (forward demo_engine demo_readout
        (demo_esn 2 True 15 [([[6,10,15]], [[30,40,50]])] None) [[1,2,3,4,5]]
        (Some [[10,20,30,40,50]]) True)) = True"
  using training_mode_machine [of demo_readout
      "demo_esn 2 True 15 [([[6,10,15]], [[30,40,50]])] None" demo_engine "[[1,2,3,4,5]]"
      "Some [[10,20,30,40,50]]" True]
  by (simp add: finalize_def reset_def train_def demo_esn_def demo_readout_def
      spec_readout_def)

text \<open>
  Claim C6. \<^verbatim>\<open>reset\<close> is idempotent. For any readout whose own \<^verbatim>\<open>reset\<close> is
  idempotent on its state and leaves a state that does not depend on the training
  flag, resetting the model twice gives the very state that resetting it once gives:
  the mode is training and the readout is in the state its own \<^verbatim>\<open>reset\<close> leaves.
  For the readout of the specification that state has no accumulated statistics and
  no fitted map.
\<close>

theorem reset_idempotent:
  assumes flag: "\<forall>r r'. mod_state r = mod_state r' \<longrightarrow>
                   mod_state (rr_reset R r) = mod_state (rr_reset R r')"
    and idem: "\<forall>r. mod_state (rr_reset R (rr_reset R r)) = mod_state (rr_reset R r)"
  shows "reset R (reset R m) = reset R m
       \<and> training (reset R m) = True
       \<and> mod_state (esn_output (reset R m)) = mod_state (rr_reset R (esn_output m))
       \<and> mod_state (esn_output (reset (spec_readout solve predict) m2)) =
           \<lparr>rr_stats = [], rr_w_out = None\<rparr>"
proof -
  let ?r = "rr_reset R (esn_output m)"
  have "mod_state (rr_reset R (?r\<lparr>mod_training := True\<rparr>)) = mod_state (rr_reset R ?r)"
  proof -
    have "mod_state (?r\<lparr>mod_training := True\<rparr>) = mod_state ?r" by simp
    with flag show ?thesis by blast
  qed
  also have "\<dots> = mod_state ?r" using idem by blast
  finally have st: "mod_state (rr_reset R (?r\<lparr>mod_training := True\<rparr>)) = mod_state ?r" .
  have "(rr_reset R (?r\<lparr>mod_training := True\<rparr>))\<lparr>mod_training := True\<rparr>
          = ?r\<lparr>mod_training := True\<rparr>"
    using st by (simp add: module.equality)
  then have twice: "reset R (reset R m) = reset R m"
    by (simp add: reset_def train_def)
  have once: "training (reset R m) = True
      \<and> mod_state (esn_output (reset R m)) = mod_state (rr_reset R (esn_output m))"
    by (simp add: reset_def)
  have "mod_state (esn_output (reset (spec_readout solve predict) m2)) =
           \<lparr>rr_stats = [], rr_w_out = None\<rparr>"
    by (simp add: reset_def)
  with twice once show ?thesis by blast
qed

theorem reset_idempotent_witness:
  "reset demo_readout
     (reset demo_readout (demo_esn 2 False 15 [([[6,10,15]], [[30,40,50]])] (Some 1))) =
     demo_esn 2 True 15 [] None
   \<and> reset demo_readout (demo_esn 2 False 15 [([[6,10,15]], [[30,40,50]])] (Some 1)) =
     demo_esn 2 True 15 [] None"
proof -
  have flag: "\<forall>r r'. mod_state r = mod_state r' \<longrightarrow>
      mod_state (rr_reset demo_readout r) = mod_state (rr_reset demo_readout r')"
    by (simp add: demo_readout_def)
  have idem: "\<forall>r. mod_state (rr_reset demo_readout (rr_reset demo_readout r)) =
      mod_state (rr_reset demo_readout r)"
    by (simp add: demo_readout_def)
  have once: "reset demo_readout (demo_esn 2 False 15 [([[6,10,15]], [[30,40,50]])] (Some 1)) =
     demo_esn 2 True 15 [] None"
    by (simp add: reset_def train_def demo_esn_def demo_readout_def)
  from reset_idempotent [OF flag idem,
      of "demo_esn 2 False 15 [([[6,10,15]], [[30,40,50]])] (Some 1)"
        "\<lambda>stats. Inr (int (length stats))" "\<lambda>k h. k * h"
        "demo_esn 2 False 15 [([[6,10,15]], [[30,40,50]])] (Some 1)"] once
  show ?thesis by simp
qed

text \<open>
  Claim C7. With the readout of the specification, \<^verbatim>\<open>finalize\<close> on a model that
  was just constructed, or just reset, raises \<open>ModeError\<close> and changes nothing: the
  mode stays training and there is still no fitted map.
\<close>

theorem finalize_without_data:
  "(ESN_init E (spec_readout solve predict) a s = (Inr m, s') \<longrightarrow>
      finalize (spec_readout solve predict) m = (Inl ModeError, m)
    \<and> training m \<and> rr_w_out (mod_state (esn_output m)) = None)
   \<and> finalize (spec_readout solve predict) (reset (spec_readout solve predict) m') =
       (Inl ModeError, reset (spec_readout solve predict) m')
   \<and> training (reset (spec_readout solve predict) m')
   \<and> rr_w_out (mod_state (esn_output (reset (spec_readout solve predict) m'))) = None"
proof -
  let ?R = "spec_readout solve predict"
  have fresh: "finalize ?R m = (Inl ModeError, m)
    \<and> training m \<and> rr_w_out (mod_state (esn_output m)) = None"
    if init: "ESN_init E ?R a s = (Inr m, s')"
  proof -
    from init have o: "esn_output m =
        \<lparr>mod_training = True, mod_state = \<lparr>rr_stats = [], rr_w_out = None\<rparr>\<rparr>"
      and t: "training m"
      by (auto simp: ESN_init_def spec_readout_def split: prod.splits sum.splits)
    have "rr_finalize ?R (esn_output m) = (Inl ModeError, esn_output m)"
      by (rule spec_readout_finalize_empty) (simp add: o)
    then have "finalize ?R m = (Inl ModeError, m)" by (simp add: finalize_def)
    with o t show ?thesis by simp
  qed
  have "rr_finalize ?R (esn_output (reset ?R m')) = (Inl ModeError, esn_output (reset ?R m'))"
    by (rule spec_readout_finalize_empty) (simp add: reset_def)
  then have after: "finalize ?R (reset ?R m') = (Inl ModeError, reset ?R m')"
    by (simp add: finalize_def)
  have "training (reset ?R m')"
    and "rr_w_out (mod_state (esn_output (reset ?R m'))) = None"
    by (simp_all add: reset_def)
  with fresh after show ?thesis by blast
qed

theorem finalize_without_data_witness:
  "ESN_init demo_engine demo_readout (demo_args 2) 0 = (Inr (demo_esn 2 True 0 [] None), 0)
   \<and> finalize demo_readout (demo_esn 2 True 0 [] None) =
       (Inl ModeError, demo_esn 2 True 0 [] None)
   \<and> finalize demo_readout
       (reset demo_readout (demo_esn 2 False 15 [([[6,10,15]], [[30,40,50]])] (Some 1))) =
       (Inl ModeError, demo_esn 2 True 15 [] None)"
proof -
  have init: "ESN_init demo_engine demo_readout (demo_args 2) 0 =
      (Inr (demo_esn 2 True 0 [] None), 0)"
    by (rule demo_init)
  have once: "reset demo_readout (demo_esn 2 False 15 [([[6,10,15]], [[30,40,50]])] (Some 1)) =
     demo_esn 2 True 15 [] None"
    by (simp add: reset_def train_def demo_esn_def demo_readout_def)
  from finalize_without_data [of demo_engine "\<lambda>stats. Inr (int (length stats))"
      "\<lambda>k h. k * h" "demo_args 2" 0 "demo_esn 2 True 0 [] None" 0
      "demo_esn 2 False 15 [([[6,10,15]], [[30,40,50]])] (Some 1)", folded demo_readout_def]
    init once
  show ?thesis by simp
qed

text \<open>
  Claim C9. \<^verbatim>\<open>reset_hidden\<close> hands the reservoir engine to its own
  \<^verbatim>\<open>reset_hidden\<close> and touches nothing else: the readout (fitted map,
  accumulated statistics and flag) and the mode are as before.
\<close>

theorem reset_hidden_frame:
  "esn_output (reset_hidden E m) = esn_output m
   \<and> training (reset_hidden E m) = training m
   \<and> esn_cell (reset_hidden E m) = cell_reset_hidden E (esn_cell m)"
  by (simp add: reset_hidden_def)

theorem reset_hidden_frame_witness:
  "reset_hidden demo_engine (demo_esn 2 False 15 [([[6,10,15]], [[30,40,50]])] (Some 1)) =
     demo_esn 2 False 0 [([[6,10,15]], [[30,40,50]])] (Some 1)"
  using reset_hidden_frame [of demo_engine
      "demo_esn 2 False 15 [([[6,10,15]], [[30,40,50]])] (Some 1)"]
  by (simp add: reset_hidden_def demo_esn_def demo_engine_def spec_engine_def)

subsection \<open>Targets in inference mode\<close>

text \<open>
  Claim C10. In inference mode the outcome of \<^verbatim>\<open>forward\<close>, result and state
  after the call alike, is the same for any two values of \<open>y\<close>, present or absent.
\<close>

theorem forward_inference_ignores_targets:
  "\<not> training m \<Longrightarrow> forward E R m u y1 rs = forward E R m u y2 rs"
  by (simp add: forward_inference)

theorem forward_inference_ignores_targets_witness:
  "\<not> training (demo_esn 2 False 0 [] (Some 2))
   \<and> forward demo_engine demo_readout (demo_esn 2 False 0 [] (Some 2)) [[1,2,3,4,5]]
        None True =
     forward demo_engine demo_readout (demo_esn 2 False 0 [] (Some 2)) [[1,2,3,4,5]]
        (Some [[10,20,30,40,50]]) True
   \<and> forward demo_engine demo_readout (demo_esn 2 False 0 [] (Some 2)) [[1,2,3,4,5]]
        None True =
     (Inr (Some [[12,20,30]]), demo_esn 2 False 15 [] (Some 2))"
proof -
  have inf: "\<not> training (demo_esn 2 False 0 [] (Some 2))" by (simp add: demo_esn_def)
  have v: "forward demo_engine demo_readout (demo_esn 2 False 0 [] (Some 2)) [[1,2,3,4,5]]
        None True = (Inr (Some [[12,20,30]]), demo_esn 2 False 15 [] (Some 2))"
    by (simp add: demo_forward_inference slice_time_from_def py_slice_from_def)
  from inf v forward_inference_ignores_targets [OF inf, of demo_engine demo_readout
      "[[1,2,3,4,5]]" None True "Some [[10,20,30,40,50]]"]
  show ?thesis by blast
qed

end
